theory Spec2Isabelle
  imports Complex_Main "HOL-Library.Word"
begin

section \<open>JavaScript values\<close>

text \<open>
  The bridge in \<^verbatim>\<open>src/outbound.js\<close> handles every frame as the result of
  \<^verbatim>\<open>JSON.parse\<close>. A parsed frame is any JSON value; reading a property that is
  absent gives \<^verbatim>\<open>undefined\<close>, so \<open>JUndef\<close> is a value of the same type.
  A JSON number is a double: only its truthiness is ever inspected by the code, so a finite
  number is kept as the rational it denotes, and an overflowing literal as an infinity.
  An object is the list of its properties, each key once.
\<close>

datatype jsnum = Finite rat | PosInfinity | NegInfinity

datatype jsval =
    JUndef
  | JNull
  | JBool bool
  | JNum jsnum
  | JStr string
  | JArr "jsval list"
  | JObj "(string \<times> jsval) list"

datatype error = SyntaxError | TypeError

text \<open>\<^verbatim>\<open>JSON.parse(data)\<close>: it throws a SyntaxError, or returns a JSON value.\<close>

datatype frame = NotJson | Json jsval

fun JSON_parse :: "frame \<Rightarrow> error + jsval" where
  "JSON_parse NotJson = Inl SyntaxError"
| "JSON_parse (Json v) = Inr v"

text \<open>Truthiness, as \<^verbatim>\<open>if (x)\<close>, \<^verbatim>\<open>x || y\<close> and \<^verbatim>\<open>x && y\<close> test it.\<close>

fun truthy :: "jsval \<Rightarrow> bool" where
  "truthy JUndef = False"
| "truthy JNull = False"
| "truthy (JBool b) = b"
| "truthy (JNum (Finite q)) = (q \<noteq> 0)"
| "truthy (JNum _) = True"
| "truthy (JStr s) = (s \<noteq> [])"
| "truthy (JArr _) = True"
| "truthy (JObj _) = True"

fun nullish :: "jsval \<Rightarrow> bool" where
  "nullish JUndef = True"
| "nullish JNull = True"
| "nullish _ = False"

text \<open>
  \<open>lookup v k\<close> is the property \<open>k\<close> of a value \<open>v\<close> that is neither null nor
  undefined. Every name the code reads (event, start, streamSid, media, payload, type, ...)
  is an own property of a parsed object or is absent; strings, numbers, booleans and arrays
  have none of them.
\<close>

fun lookup :: "jsval \<Rightarrow> string \<Rightarrow> jsval" where
  "lookup (JObj kvs) k = (case map_of kvs k of None \<Rightarrow> JUndef | Some v \<Rightarrow> v)"
| "lookup _ k = JUndef"

text \<open>\<^verbatim>\<open>v.k\<close> throws a TypeError on null and undefined; \<^verbatim>\<open>v?.k\<close> gives undefined there.\<close>

definition member :: "jsval \<Rightarrow> string \<Rightarrow> error + jsval" where
  "member v k = (if nullish v then Inl TypeError else Inr (lookup v k))"

definition opt_member :: "jsval \<Rightarrow> string \<Rightarrow> jsval" where
  "opt_member v k = (if nullish v then JUndef else lookup v k)"

text \<open>\<^verbatim>\<open>a || b\<close>\<close>

definition or_else :: "jsval \<Rightarrow> jsval \<Rightarrow> jsval" where
  "or_else a b = (if truthy a then a else b)"

section \<open>Base64, as \<^verbatim>\<open>Buffer.from(s, "base64").toString("base64")\<close> computes it\<close>

type_synonym byte = "8 word"

definition b64_alphabet :: string where
  "b64_alphabet = ''ABCDEFGHIJKLMNOPQRSTUVWXYZabcdefghijklmnopqrstuvwxyz0123456789+/''"

definition b64_char :: "nat \<Rightarrow> char" where
  "b64_char n = b64_alphabet ! n"

fun index_of :: "'a \<Rightarrow> 'a list \<Rightarrow> nat option" where
  "index_of x [] = None"
| "index_of x (y # ys) =
     (if x = y then Some 0 else map_option Suc (index_of x ys))"

text \<open>
  The decoder's table: the standard alphabet, and the URL-safe \<open>-\<close> and \<open>_\<close> as 62 and 63.
\<close>

definition unbase64 :: "char \<Rightarrow> nat option" where
  "unbase64 c =
     (if c = CHR ''-'' then Some 62
      else if c = CHR ''_'' then Some 63
      else index_of c b64_alphabet)"

text \<open>
  The decoder reads the characters in order: one outside the table is skipped, the first
  \<open>=\<close> ends the input.
\<close>

fun sextets :: "string \<Rightarrow> nat list" where
  "sextets [] = []"
| "sextets (c # cs) =
     (if c = CHR ''='' then []
      else case unbase64 c of None \<Rightarrow> sextets cs | Some n \<Rightarrow> n # sextets cs)"

text \<open>
  Four sextets give three bytes; a last group of three gives two bytes, of two gives one,
  and a single left-over sextet gives none.
\<close>

fun decode_groups :: "nat list \<Rightarrow> byte list" where
  "decode_groups (w # x # y # z # r) =
     word_of_nat (w * 4 + x div 16)
       # word_of_nat ((x mod 16) * 16 + y div 4)
       # word_of_nat ((y mod 4) * 64 + z)
       # decode_groups r"
| "decode_groups [w, x, y] =
     [word_of_nat (w * 4 + x div 16), word_of_nat ((x mod 16) * 16 + y div 4)]"
| "decode_groups [w, x] = [word_of_nat (w * 4 + x div 16)]"
| "decode_groups _ = []"

definition b64_decode :: "string \<Rightarrow> byte list" where
  "b64_decode s = decode_groups (sextets s)"

fun b64_encode :: "byte list \<Rightarrow> string" where
  "b64_encode (a # b # c # r) =
     b64_char (unat a div 4)
       # b64_char ((unat a mod 4) * 16 + unat b div 16)
       # b64_char ((unat b mod 16) * 4 + unat c div 64)
       # b64_char (unat c mod 64)
       # b64_encode r"
| "b64_encode [a, b] =
     [b64_char (unat a div 4),
      b64_char ((unat a mod 4) * 16 + unat b div 16),
      b64_char ((unat b mod 16) * 4),
      CHR ''='']"
| "b64_encode [a] =
     [b64_char (unat a div 4), b64_char ((unat a mod 4) * 16), CHR ''='', CHR ''='']"
| "b64_encode [] = []"

text \<open>
  \<^verbatim>\<open>Buffer.from(v, "base64")\<close>: a string is decoded; undefined, null, a boolean and a
  number are a TypeError. An array or an object is read as a list of bytes or refused,
  by rules of the runtime that the bridge does not depend on: \<open>from_object\<close> stands for
  them, \<open>None\<close> where the runtime throws.
\<close>

fun Buffer_from :: "(jsval \<Rightarrow> byte list option) \<Rightarrow> jsval \<Rightarrow> error + byte list" where
  "Buffer_from from_object (JStr s) = Inr (b64_decode s)"
| "Buffer_from from_object (JArr xs) =
     (case from_object (JArr xs) of None \<Rightarrow> Inl TypeError | Some bs \<Rightarrow> Inr bs)"
| "Buffer_from from_object (JObj kvs) =
     (case from_object (JObj kvs) of None \<Rightarrow> Inl TypeError | Some bs \<Rightarrow> Inr bs)"
| "Buffer_from from_object _ = Inl TypeError"

section \<open>The state of the server\<close>

datatype ready_state = CONNECTING | OPEN | CLOSING | CLOSED

text \<open>One constructor for each \<^verbatim>\<open>console\<close> call of the media-stream and observer routes.\<close>

datatype log_entry =
    InfoTwilioConnected
  | ErrorTwilioSocket
  | ErrorGettingSignedUrl
  | ErrorSettingUpElevenLabs
  | LogUnhandledType jsval
  | LogAudioNoStreamSid
  | ErrorProcessingElevenLabs error
  | LogElevenLabsDisconnected
  | ErrorElevenLabsSocket
  | LogStreamStarted jsval
  | ErrorProcessingTwilio error
  | LogTwilioClosed jsval
  | WarnNoFrontend jsval
  | LogFrontendConnected string
  | LogFrontendDisconnected string
  | ErrorFrontendSocket string

text \<open>
  The first four fields are the variables of the \<^verbatim>\<open>/outbound-media-stream\<close> handler
  (\<open>elevenLabsWs\<close> is \<open>None\<close> for null, else the socket's readyState), and
  \<open>callClientMap\<close> is the global map. An observer connection is a number; \<open>client_param\<close>
  is the \<^verbatim>\<open>callSid\<close> its handlers closed over, \<open>client_ready\<close> its readyState.
  \<open>setup_pending\<close> holds while the promise of \<^verbatim>\<open>setupElevenLabs()\<close> has not settled,
  \<open>twilio_ready\<close> is the readyState of the telephony socket \<^verbatim>\<open>ws\<close>.
  \<open>twilio_out\<close>, \<open>ai_out\<close> and \<open>client_out\<close> list the values handed to
  \<^verbatim>\<open>send(JSON.stringify(...))\<close> on each socket, oldest first, whatever the
  readyState of the socket; \<^verbatim>\<open>JSON.stringify\<close> then leaves out a property whose
  value is undefined.
\<close>

record server =
  streamSid :: jsval
  callSid :: jsval
  elevenLabsWs :: "ready_state option"
  customParameters :: jsval
  setup_pending :: bool
  twilio_ready :: ready_state
  twilio_out :: "jsval list"
  ai_out :: "jsval list"
  callClientMap :: "string \<rightharpoonup> nat"
  client_param :: "nat \<rightharpoonup> string"
  client_ready :: "nat \<Rightarrow> ready_state"
  client_out :: "nat \<Rightarrow> jsval list"
  console :: "log_entry list"

definition log :: "log_entry \<Rightarrow> server \<Rightarrow> server" where
  "log l s = s\<lparr>console := console s @ [l]\<rparr>"

definition ws_send :: "jsval \<Rightarrow> server \<Rightarrow> server" where
  "ws_send v s = s\<lparr>twilio_out := twilio_out s @ [v]\<rparr>"

definition elevenLabsWs_send :: "jsval \<Rightarrow> server \<Rightarrow> server" where
  "elevenLabsWs_send v s = s\<lparr>ai_out := ai_out s @ [v]\<rparr>"

text \<open>
  \<^verbatim>\<open>callClientMap.get(callSid)\<close>: every key was set from a route parameter, a string,
  so a \<open>callSid\<close> that is not a string finds nothing.
\<close>

fun map_get :: "(string \<rightharpoonup> nat) \<Rightarrow> jsval \<Rightarrow> nat option" where
  "map_get m (JStr c) = m c"
| "map_get m _ = None"

text \<open>The state the handler of \<^verbatim>\<open>/outbound-media-stream\<close> leaves when it returns
  (lines 137 to 236): the variables are null and \<^verbatim>\<open>setupElevenLabs()\<close> has been called.\<close>

definition accept :: server where
  "accept = \<lparr>streamSid = JNull, callSid = JNull, elevenLabsWs = None,
     customParameters = JNull, setup_pending = True, twilio_ready = OPEN,
     twilio_out = [], ai_out = [], callClientMap = Map.empty, client_param = Map.empty,
     client_ready = (\<lambda>w. CLOSED), client_out = (\<lambda>w. []),
     console = [InfoTwilioConnected]\<rparr>"

section \<open>The observer channel\<close>

definition sendToFrontend :: "jsval \<Rightarrow> server \<Rightarrow> server" where
  "sendToFrontend data s =
     (case map_get (callClientMap s) (callSid s) of
        Some clientWs \<Rightarrow>
          if client_ready s clientWs = OPEN
          then s\<lparr>client_out := (client_out s)(clientWs := client_out s clientWs @ [data])\<rparr>
          else log (WarnNoFrontend (callSid s)) s
      | None \<Rightarrow> log (WarnNoFrontend (callSid s)) s)"

text \<open>The handler of \<^verbatim>\<open>/transcription-stream/:callSid\<close> and its two listeners.\<close>

definition on_client_connect :: "string \<Rightarrow> nat \<Rightarrow> server \<Rightarrow> server" where
  "on_client_connect c w s =
     (log (LogFrontendConnected c) s)
       \<lparr>callClientMap := (callClientMap s)(c \<mapsto> w),
        client_param := (client_param s)(w \<mapsto> c),
        client_ready := (client_ready s)(w := OPEN)\<rparr>"

definition on_client_close :: "string \<Rightarrow> server \<Rightarrow> server" where
  "on_client_close c s =
     (log (LogFrontendDisconnected c) s)\<lparr>callClientMap := (callClientMap s)(c := None)\<rparr>"

definition on_client_error :: "string \<Rightarrow> server \<Rightarrow> server" where
  "on_client_error c s =
     (log (ErrorFrontendSocket c) s)\<lparr>callClientMap := (callClientMap s)(c := None)\<rparr>"

section \<open>The AI leg\<close>

definition initialConfig :: "jsval \<Rightarrow> jsval" where
  "initialConfig params =
     JObj [(''type'', JStr ''conversation_initiation_client_data''),
           (''conversation_config_override'',
            JObj [(''agent'',
              JObj [(''prompt'',
                     JObj [(''prompt'', or_else (opt_member params ''prompt'')
                                         (JStr ''you are gary from the phone store''))]),
                    (''first_message'', or_else (opt_member params ''first_message'')
                                         (JStr ''Hey, how can I help you today?''))])])]"

definition on_ai_open :: "server \<Rightarrow> server" where
  "on_ai_open s = elevenLabsWs_send (initialConfig (customParameters s)) s"

text \<open>The \<^verbatim>\<open>switch\<close> of lines 179 to 222, on a message that parsed.\<close>

definition ai_switch :: "jsval \<Rightarrow> server \<Rightarrow> error + server" where
  "ai_switch message s =
     (case member message ''type'' of
        Inl e \<Rightarrow> Inl e
      | Inr t \<Rightarrow> Inr (
          if t = JStr ''agent_response'' then
            sendToFrontend
              (JObj [(''event'', JStr ''transcript''), (''speaker'', JStr ''Agent''),
                     (''text'', opt_member (lookup message ''agent_response_event'')
                                  ''agent_response'')]) s
          else if t = JStr ''user_transcript'' then
            sendToFrontend
              (JObj [(''event'', JStr ''transcript''), (''speaker'', JStr ''User''),
                     (''text'', opt_member (lookup message ''user_transcription_event'')
                                  ''user_transcript'')]) s
          else if t = JStr ''audio'' then
            (if truthy (streamSid s) then
               (if truthy (opt_member (lookup message ''audio'') ''chunk'') then
                  ws_send
                    (JObj [(''event'', JStr ''media''), (''streamSid'', streamSid s),
                           (''media'',
                            JObj [(''payload'', lookup (lookup message ''audio'') ''chunk'')])])
                    s
                else if truthy (opt_member (lookup message ''audio_event'') ''audio_base_64'') then
                  ws_send
                    (JObj [(''event'', JStr ''media''), (''streamSid'', streamSid s),
                           (''media'',
                            JObj [(''payload'',
                                   lookup (lookup message ''audio_event'') ''audio_base_64'')])])
                    s
                else s)
             else log LogAudioNoStreamSid s)
          else if t = JStr ''interruption'' then
            (if truthy (streamSid s)
             then ws_send (JObj [(''event'', JStr ''clear''), (''streamSid'', streamSid s)]) s
             else s)
          else log (LogUnhandledType t) s))"

text \<open>The listener of line 175: parse, switch, and catch whatever either throws.\<close>

definition on_ai_message :: "frame \<Rightarrow> server \<Rightarrow> server" where
  "on_ai_message data s =
     (case JSON_parse data of
        Inl e \<Rightarrow> log (ErrorProcessingElevenLabs e) s
      | Inr message \<Rightarrow>
          (case ai_switch message s of
             Inl e \<Rightarrow> log (ErrorProcessingElevenLabs e) s
           | Inr s' \<Rightarrow> s'))"

definition on_ai_close :: "server \<Rightarrow> server" where
  "on_ai_close s = log LogElevenLabsDisconnected s"

definition on_ai_error :: "server \<Rightarrow> server" where
  "on_ai_error s = log ErrorElevenLabsSocket s"

text \<open>
  \<^verbatim>\<open>setupElevenLabs\<close> up to the registration of the listeners settles in one of three
  ways: \<^verbatim>\<open>getSignedUrl\<close> throws (it logs and rethrows), the \<^verbatim>\<open>WebSocket\<close>
  constructor throws on the URL it was given, or the socket is created, connecting.
\<close>

datatype setup_outcome = FetchThrew | ConstructorThrew | Created

fun setupElevenLabs :: "setup_outcome \<Rightarrow> server \<Rightarrow> server" where
  "setupElevenLabs FetchThrew s =
     log ErrorSettingUpElevenLabs (log ErrorGettingSignedUrl (s\<lparr>setup_pending := False\<rparr>))"
| "setupElevenLabs ConstructorThrew s =
     log ErrorSettingUpElevenLabs (s\<lparr>setup_pending := False\<rparr>)"
| "setupElevenLabs Created s =
     s\<lparr>setup_pending := False, elevenLabsWs := Some CONNECTING\<rparr>"

section \<open>The telephony leg\<close>

text \<open>\<^verbatim>\<open>elevenLabsWs.close()\<close> on an open socket starts the closing handshake.\<close>

definition close_ai_if_open :: "server \<Rightarrow> server" where
  "close_ai_if_open s =
     (if elevenLabsWs s = Some OPEN then s\<lparr>elevenLabsWs := Some CLOSING\<rparr> else s)"

text \<open>
  Lines 241 to 256, on a message that parsed. In the \<open>start\<close> branch the three reads of
  \<^verbatim>\<open>message.start\<close> throw together or not at all, so nothing is assigned when one throws.
\<close>

definition twilio_branches ::
  "(jsval \<Rightarrow> byte list option) \<Rightarrow> jsval \<Rightarrow> server \<Rightarrow> error + server" where
  "twilio_branches from_object message s =
     (case member message ''event'' of
        Inl e \<Rightarrow> Inl e
      | Inr ev \<Rightarrow>
          if ev = JStr ''start'' then
            (case member (lookup message ''start'') ''streamSid'' of
               Inl e \<Rightarrow> Inl e
             | Inr sid \<Rightarrow>
                 Inr (log (LogStreamStarted (lookup (lookup message ''start'') ''callSid''))
                   (s\<lparr>streamSid := sid,
                      callSid := lookup (lookup message ''start'') ''callSid'',
                      customParameters :=
                        lookup (lookup message ''start'') ''customParameters''\<rparr>)))
          else if ev = JStr ''media'' \<and> elevenLabsWs s = Some OPEN then
            (case member (lookup message ''media'') ''payload'' of
               Inl e \<Rightarrow> Inl e
             | Inr payload \<Rightarrow>
                 (case Buffer_from from_object payload of
                    Inl e \<Rightarrow> Inl e
                  | Inr buf \<Rightarrow>
                      Inr (elevenLabsWs_send
                        (JObj [(''user_audio_chunk'', JStr (b64_encode buf))]) s)))
          else if ev = JStr ''stop'' then Inr (close_ai_if_open s)
          else Inr s)"

definition on_twilio_message ::
  "(jsval \<Rightarrow> byte list option) \<Rightarrow> frame \<Rightarrow> server \<Rightarrow> server" where
  "on_twilio_message from_object msg s =
     (case JSON_parse msg of
        Inl e \<Rightarrow> log (ErrorProcessingTwilio e) s
      | Inr message \<Rightarrow>
          (case twilio_branches from_object message s of
             Inl e \<Rightarrow> log (ErrorProcessingTwilio e) s
           | Inr s' \<Rightarrow> s'))"

definition on_twilio_close :: "server \<Rightarrow> server" where
  "on_twilio_close s = log (LogTwilioClosed (callSid s)) (close_ai_if_open s)"

definition on_twilio_error :: "server \<Rightarrow> server" where
  "on_twilio_error s = log ErrorTwilioSocket s"

section \<open>Events\<close>

text \<open>
  What the event loop can deliver to the listeners. A socket sets its readyState before it
  emits an event: OPEN before \<open>open\<close>, CLOSED before \<open>close\<close>, and CLOSING before
  \<open>error\<close> (the socket is on its way down when it reports an error, and \<open>close\<close>
  follows). An event that cannot occur in a state (a message on a socket that does not
  exist, an error on a socket that has closed, a second settlement of the setup promise, a
  connection number used twice) leaves the state as it is.
\<close>

datatype event =
    SetupSettled setup_outcome
  | AiOpen
  | AiMessage frame
  | AiClose
  | AiError
  | TwilioMessage frame
  | TwilioClose
  | TwilioError
  | ClientConnect string nat
  | ClientClose nat
  | ClientError nat

fun step :: "(jsval \<Rightarrow> byte list option) \<Rightarrow> event \<Rightarrow> server \<Rightarrow> server" where
  "step fo (SetupSettled out) s = (if setup_pending s then setupElevenLabs out s else s)"
| "step fo AiOpen s =
     (if elevenLabsWs s = Some CONNECTING
      then on_ai_open (s\<lparr>elevenLabsWs := Some OPEN\<rparr>) else s)"
| "step fo (AiMessage data) s =
     (if elevenLabsWs s = Some OPEN \<or> elevenLabsWs s = Some CLOSING
      then on_ai_message data s else s)"
| "step fo AiClose s =
     (case elevenLabsWs s of
        None \<Rightarrow> s
      | Some r \<Rightarrow> if r = CLOSED then s else on_ai_close (s\<lparr>elevenLabsWs := Some CLOSED\<rparr>))"
| "step fo AiError s =
     (case elevenLabsWs s of
        None \<Rightarrow> s
      | Some r \<Rightarrow> if r = CLOSED then s else on_ai_error (s\<lparr>elevenLabsWs := Some CLOSING\<rparr>))"
| "step fo (TwilioMessage msg) s =
     (if twilio_ready s = OPEN then on_twilio_message fo msg s else s)"
| "step fo TwilioClose s =
     (if twilio_ready s = CLOSED then s else on_twilio_close (s\<lparr>twilio_ready := CLOSED\<rparr>))"
| "step fo TwilioError s =
     (if twilio_ready s = CLOSED then s else on_twilio_error (s\<lparr>twilio_ready := CLOSING\<rparr>))"
| "step fo (ClientConnect c w) s =
     (if client_param s w = None then on_client_connect c w s else s)"
| "step fo (ClientClose w) s =
     (case client_param s w of
        None \<Rightarrow> s
      | Some c \<Rightarrow>
          if client_ready s w = CLOSED then s
          else on_client_close c (s\<lparr>client_ready := (client_ready s)(w := CLOSED)\<rparr>))"
| "step fo (ClientError w) s =
     (case client_param s w of
        None \<Rightarrow> s
      | Some c \<Rightarrow>
          if client_ready s w = CLOSED then s
          else on_client_error c (s\<lparr>client_ready := (client_ready s)(w := CLOSING)\<rparr>))"

fun run :: "(jsval \<Rightarrow> byte list option) \<Rightarrow> event list \<Rightarrow> server \<Rightarrow> server" where
  "run fo [] s = s"
| "run fo (e # es) s = run fo es (step fo e s)"

section \<open>Vocabulary of the properties\<close>

text \<open>
  A telephony frame whose \<^verbatim>\<open>event\<close> is \<open>start\<close>; \<open>starts_with msg S C\<close> holds when
  its \<^verbatim>\<open>start\<close> object can be read and carries stream id \<open>S\<close> and call id \<open>C\<close>.
\<close>

fun is_start :: "event \<Rightarrow> bool" where
  "is_start (TwilioMessage (Json m)) = (member m ''event'' = Inr (JStr ''start''))"
| "is_start _ = False"

definition starts_with :: "jsval \<Rightarrow> jsval \<Rightarrow> jsval \<Rightarrow> bool" where
  "starts_with msg S C \<longleftrightarrow>
     member msg ''event'' = Inr (JStr ''start'')
     \<and> member (lookup msg ''start'') ''streamSid'' = Inr S
     \<and> lookup (lookup msg ''start'') ''callSid'' = C"

text \<open>Two states agree up to what was logged when they are equal once the log is dropped.\<close>

definition forget_console :: "server \<Rightarrow> server" where
  "forget_console s = s\<lparr>console := []\<rparr>"

text \<open>
  A runtime that refuses every array and every object as the argument of
  \<^verbatim>\<open>Buffer.from\<close>; the concrete runs below carry string payloads only and do not
  consult it.
\<close>

definition refuse_objects :: "jsval \<Rightarrow> byte list option" where
  "refuse_objects v = None"

text \<open>Frames of the two protocols, for the concrete runs.\<close>

definition start_frame :: "string \<Rightarrow> string \<Rightarrow> frame" where
  "start_frame sid cid =
     Json (JObj [(''event'', JStr ''start''),
                 (''start'', JObj [(''streamSid'', JStr sid), (''callSid'', JStr cid)])])"

definition media_in :: "string \<Rightarrow> frame" where
  "media_in p =
     Json (JObj [(''event'', JStr ''media''), (''media'', JObj [(''payload'', JStr p)])])"

definition audio_chunk :: "string \<Rightarrow> frame" where
  "audio_chunk p =
     Json (JObj [(''type'', JStr ''audio''), (''audio'', JObj [(''chunk'', JStr p)])])"




section \<open>Base64: encoding then decoding gives the bytes back\<close>

lemma unbase64_b64_char:
  "n < 64 \<Longrightarrow> unbase64 (b64_char n) = Some n \<and> b64_char n \<noteq> CHR ''=''"
proof -
  have "list_all (\<lambda>n. unbase64 (b64_char n) = Some n \<and> b64_char n \<noteq> CHR ''='') [0..<64]"
    by code_simp
  then show "n < 64 \<Longrightarrow> unbase64 (b64_char n) = Some n \<and> b64_char n \<noteq> CHR ''=''"
    by (simp add: list_all_iff)
qed

lemma sextets_b64_char: "n < 64 \<Longrightarrow> sextets (b64_char n # cs) = n # sextets cs"
  using unbase64_b64_char [of n] by simp

lemma sextets_pad: "sextets (CHR ''='' # cs) = []"
  by simp

lemma unat_byte: "unat (a :: byte) < 256"
  using unsigned_less [of a, where ?'a = nat] by simp

lemma group1: "x < 256 \<Longrightarrow> y < 256 \<Longrightarrow> (x div 4) * 4 + ((x mod 4) * 16 + y div 16) div 16 = (x::nat)"
  by simp

lemma group2: "y < 256 \<Longrightarrow> z < 256 \<Longrightarrow>
   (((x mod 4) * 16 + y div 16) mod 16) * 16 + ((y mod 16) * 4 + z div 64) div 4 = (y::nat)"
proof -
  assume y: "y < 256" and z: "z < 256"
  have a: "((x mod 4) * 16 + y div 16) mod 16 = y div 16"
    using y by simp
  have b: "((y mod 16) * 4 + z div 64) div 4 = y mod 16"
    using z by simp
  show ?thesis unfolding a b by simp
qed

lemma group3: "z < 256 \<Longrightarrow>
   (((y mod 16) * 4 + z div 64) mod 4) * 64 + z mod 64 = (z::nat)"
proof -
  assume z: "z < 256"
  have a: "((y mod 16) * 4 + z div 64) mod 4 = z div 64"
    using z by simp
  show ?thesis unfolding a by simp
qed

lemma group1_last: "(x div 4) * 4 + ((x mod 4) * 16) div 16 = (x::nat)"
  by simp

lemma group2_last: "y < 256 \<Longrightarrow>
   (((x mod 4) * 16 + y div 16) mod 16) * 16 + ((y mod 16) * 4) div 4 = (y::nat)"
proof -
  assume y: "y < 256"
  have a: "((x mod 4) * 16 + y div 16) mod 16 = y div 16"
    using y by simp
  show ?thesis unfolding a by simp
qed

lemma sextet_bounds:
  "x < 256 \<Longrightarrow> y < 256 \<Longrightarrow>
     x div 4 < 64 \<and> (x mod 4) * 16 + y div 16 < 64 \<and> (x mod 16) * 4 + y div 64 < 64
     \<and> x mod 64 < 64 \<and> (x mod 4) * 16 < 64 \<and> (x mod 16) * 4 < (64::nat)"
proof -
  assume x: "x < 256" and y: "y < 256"
  have 1: "x div 4 < 64" using x by simp
  have "x mod 4 \<le> 3" by simp
  then have m4: "(x mod 4) * 16 \<le> 48" by simp
  have d16: "y div 16 < 16" using y by simp
  have "x mod 16 \<le> 15" by simp
  then have m16: "(x mod 16) * 4 \<le> 60" by simp
  have d64: "y div 64 < 4" using y by simp
  show ?thesis using 1 m4 d16 m16 d64 by simp
qed

lemma word_of_unat_byte: "word_of_nat (unat a) = (a :: byte)"
  by simp

lemma decode_full_group:
  "decode_groups (unat a div 4 # (unat a mod 4 * 16 + unat b div 16)
      # (unat b mod 16 * 4 + unat c div 64) # (unat c mod 64) # r)
   = a # b # c # decode_groups r"
  by (simp only: decode_groups.simps group1 [OF unat_byte unat_byte]
        group2 [OF unat_byte unat_byte] group3 [OF unat_byte] word_of_unat_byte)

lemma decode_two_bytes:
  "decode_groups [unat a div 4, unat a mod 4 * 16 + unat b div 16, unat b mod 16 * 4]
   = [a, b]"
  by (simp only: decode_groups.simps group1 [OF unat_byte unat_byte]
        group2_last [OF unat_byte] word_of_unat_byte)

lemma decode_one_byte:
  "decode_groups [unat a div 4, unat a mod 4 * 16] = [a]"
  by (simp only: decode_groups.simps group1_last word_of_unat_byte)

lemma b64_roundtrip: "b64_decode (b64_encode bs) = bs"
  unfolding b64_decode_def
proof (induction bs rule: b64_encode.induct)
  case (1 a b c r)
  note ab = sextet_bounds [OF unat_byte [of a] unat_byte [of b]]
    and bc = sextet_bounds [OF unat_byte [of b] unat_byte [of c]]
    and cc = sextet_bounds [OF unat_byte [of c] unat_byte [of c]]
  have "sextets (b64_encode (a # b # c # r)) =
      unat a div 4 # (unat a mod 4 * 16 + unat b div 16)
      # (unat b mod 16 * 4 + unat c div 64) # (unat c mod 64) # sextets (b64_encode r)"
    using ab bc cc by (simp only: b64_encode.simps sextets_b64_char)
  then show ?case
    using 1 by (simp only: decode_full_group)
next
  case (2 a b)
  note ab = sextet_bounds [OF unat_byte [of a] unat_byte [of b]]
    and bb = sextet_bounds [OF unat_byte [of b] unat_byte [of b]]
  have "sextets (b64_encode [a, b]) =
      [unat a div 4, unat a mod 4 * 16 + unat b div 16, unat b mod 16 * 4]"
    using ab bb by (simp only: b64_encode.simps sextets_b64_char sextets_pad)
  then show ?case
    by (simp only: decode_two_bytes)
next
  case (3 a)
  note aa = sextet_bounds [OF unat_byte [of a] unat_byte [of a]]
  have "sextets (b64_encode [a]) = [unat a div 4, unat a mod 4 * 16]"
    using aa by (simp only: b64_encode.simps sextets_b64_char sextets_pad)
  then show ?case
    by (simp only: decode_one_byte)
next
  case 4
  show ?case by simp
qed

section \<open>What is logged never changes what is done\<close>

lemma forget_log [simp]: "forget_console (log l s) = forget_console s"
  by (simp add: forget_console_def log_def)

lemma forget_idem [simp]: "forget_console (forget_console s) = forget_console s"
  by (simp add: forget_console_def)

lemma forget_fields [simp]:
  "streamSid (forget_console s) = streamSid s"
  "callSid (forget_console s) = callSid s"
  "elevenLabsWs (forget_console s) = elevenLabsWs s"
  "customParameters (forget_console s) = customParameters s"
  "setup_pending (forget_console s) = setup_pending s"
  "twilio_ready (forget_console s) = twilio_ready s"
  "callClientMap (forget_console s) = callClientMap s"
  "client_param (forget_console s) = client_param s"
  "client_ready (forget_console s) = client_ready s"
  by (simp_all add: forget_console_def)

lemma forget_updates [simp]:
  "forget_console (s\<lparr>twilio_out := a\<rparr>) = (forget_console s)\<lparr>twilio_out := a\<rparr>"
  "forget_console (s\<lparr>ai_out := b\<rparr>) = (forget_console s)\<lparr>ai_out := b\<rparr>"
  "forget_console (s\<lparr>client_out := c\<rparr>) = (forget_console s)\<lparr>client_out := c\<rparr>"
  "forget_console (s\<lparr>elevenLabsWs := d\<rparr>) = (forget_console s)\<lparr>elevenLabsWs := d\<rparr>"
  "forget_console (s\<lparr>setup_pending := e\<rparr>) = (forget_console s)\<lparr>setup_pending := e\<rparr>"
  "forget_console (s\<lparr>twilio_ready := f\<rparr>) = (forget_console s)\<lparr>twilio_ready := f\<rparr>"
  "forget_console (s\<lparr>callClientMap := g\<rparr>) = (forget_console s)\<lparr>callClientMap := g\<rparr>"
  "forget_console (s\<lparr>client_param := h\<rparr>) = (forget_console s)\<lparr>client_param := h\<rparr>"
  "forget_console (s\<lparr>client_ready := i\<rparr>) = (forget_console s)\<lparr>client_ready := i\<rparr>"
  "forget_console (s\<lparr>streamSid := j, callSid := k, customParameters := l\<rparr>)
     = (forget_console s)\<lparr>streamSid := j, callSid := k, customParameters := l\<rparr>"
  by (simp_all add: forget_console_def)

lemma forget_out_fields [simp]:
  "twilio_out (forget_console s) = twilio_out s"
  "ai_out (forget_console s) = ai_out s"
  "client_out (forget_console s) = client_out s"
  by (simp_all add: forget_console_def)

lemma sendToFrontend_forget:
  "forget_console (sendToFrontend d (forget_console s)) = forget_console (sendToFrontend d s)"
  by (simp add: sendToFrontend_def split: option.splits)

lemma ai_switch_forget:
  "map_sum id forget_console (ai_switch m (forget_console s))
     = map_sum id forget_console (ai_switch m s)"
  by (simp add: ai_switch_def ws_send_def sendToFrontend_forget split: sum.splits)

lemma on_ai_message_forget:
  "forget_console (on_ai_message d (forget_console s)) = forget_console (on_ai_message d s)"
proof (cases d)
  case NotJson
  then show ?thesis by (simp add: on_ai_message_def)
next
  case (Json m)
  show ?thesis
    using ai_switch_forget [of m s]
    by (cases "ai_switch m s"; cases "ai_switch m (forget_console s)")
       (simp_all add: on_ai_message_def Json)
qed

lemma twilio_branches_forget:
  "map_sum id forget_console (twilio_branches fo m (forget_console s))
     = map_sum id forget_console (twilio_branches fo m s)"
  by (simp add: twilio_branches_def elevenLabsWs_send_def close_ai_if_open_def
        split: sum.splits)

lemma on_twilio_message_forget:
  "forget_console (on_twilio_message fo d (forget_console s))
     = forget_console (on_twilio_message fo d s)"
proof (cases d)
  case NotJson
  then show ?thesis by (simp add: on_twilio_message_def)
next
  case (Json m)
  show ?thesis
    using twilio_branches_forget [of fo m s]
    by (cases "twilio_branches fo m s"; cases "twilio_branches fo m (forget_console s)")
       (simp_all add: on_twilio_message_def Json)
qed

lemma step_forget:
  "forget_console (step fo e (forget_console s)) = forget_console (step fo e s)"
proof (cases e)
  case (SetupSettled out)
  then show ?thesis by (cases out) simp_all
next
  case AiOpen
  then show ?thesis by (simp add: on_ai_open_def elevenLabsWs_send_def)
next
  case (AiMessage d)
  then show ?thesis by (simp add: on_ai_message_forget)
next
  case AiClose
  then show ?thesis by (simp add: on_ai_close_def split: option.splits)
next
  case AiError
  then show ?thesis by (simp add: on_ai_error_def split: option.splits)
next
  case (TwilioMessage d)
  then show ?thesis by (simp add: on_twilio_message_forget)
next
  case TwilioClose
  then show ?thesis by (simp add: on_twilio_close_def close_ai_if_open_def)
next
  case TwilioError
  then show ?thesis by (simp add: on_twilio_error_def)
next
  case (ClientConnect c w)
  then show ?thesis by (simp add: on_client_connect_def)
next
  case (ClientClose w)
  then show ?thesis by (simp add: on_client_close_def split: option.splits)
next
  case (ClientError w)
  then show ?thesis by (simp add: on_client_error_def split: option.splits)
qed

lemma run_forget:
  "forget_console (run fo es (forget_console s)) = forget_console (run fo es s)"
proof (induction es arbitrary: s)
  case Nil
  show ?case by simp
next
  case (Cons e es)
  have "forget_console (run fo (e # es) (forget_console s))
      = forget_console (run fo es (forget_console (step fo e (forget_console s))))"
    using Cons [of "step fo e (forget_console s)"] by simp
  also have "\<dots> = forget_console (run fo es (forget_console (step fo e s)))"
    by (simp only: step_forget)
  also have "\<dots> = forget_console (run fo (e # es) s)"
    using Cons [of "step fo e s"] by simp
  finally show ?case .
qed

section \<open>Which events change which fields\<close>

lemma sendToFrontend_keeps:
  "streamSid (sendToFrontend d s) = streamSid s"
  "callSid (sendToFrontend d s) = callSid s"
  "customParameters (sendToFrontend d s) = customParameters s"
  "elevenLabsWs (sendToFrontend d s) = elevenLabsWs s"
  "setup_pending (sendToFrontend d s) = setup_pending s"
  "twilio_ready (sendToFrontend d s) = twilio_ready s"
  "twilio_out (sendToFrontend d s) = twilio_out s"
  "ai_out (sendToFrontend d s) = ai_out s"
  by (simp_all add: sendToFrontend_def log_def split: option.splits)

lemma ai_switch_keeps:
  assumes "ai_switch m s = Inr s'"
  shows "streamSid s' = streamSid s" and "callSid s' = callSid s"
    and "customParameters s' = customParameters s" and "elevenLabsWs s' = elevenLabsWs s"
    and "setup_pending s' = setup_pending s" and "twilio_ready s' = twilio_ready s"
    and "ai_out s' = ai_out s"
  using assms
  by (auto simp: ai_switch_def sendToFrontend_keeps ws_send_def log_def
        split: sum.splits if_splits)

lemma on_ai_message_keeps:
  "streamSid (on_ai_message d s) = streamSid s"
  "callSid (on_ai_message d s) = callSid s"
  "customParameters (on_ai_message d s) = customParameters s"
  "elevenLabsWs (on_ai_message d s) = elevenLabsWs s"
  "setup_pending (on_ai_message d s) = setup_pending s"
  "twilio_ready (on_ai_message d s) = twilio_ready s"
  "ai_out (on_ai_message d s) = ai_out s"
  by (cases d; cases "ai_switch (case d of Json m \<Rightarrow> m) s";
      simp add: on_ai_message_def log_def ai_switch_keeps)+

lemma twilio_branches_keeps:
  assumes "twilio_branches fo m s = Inr s'"
  shows "setup_pending s' = setup_pending s" and "twilio_ready s' = twilio_ready s"
    and "twilio_out s' = twilio_out s" and "client_out s' = client_out s"
    and "callClientMap s' = callClientMap s"
    and "elevenLabsWs s = None \<Longrightarrow> elevenLabsWs s' = None \<and> ai_out s' = ai_out s"
    and "member m ''event'' \<noteq> Inr (JStr ''start'') \<Longrightarrow>
           streamSid s' = streamSid s \<and> callSid s' = callSid s
           \<and> customParameters s' = customParameters s"
  using assms
  by (auto simp: twilio_branches_def elevenLabsWs_send_def close_ai_if_open_def log_def
        split: sum.splits if_splits)


lemma on_twilio_message_keeps_ids:
  assumes "\<not> is_start (TwilioMessage d)"
  shows "streamSid (on_twilio_message fo d s) = streamSid s
     \<and> callSid (on_twilio_message fo d s) = callSid s
     \<and> customParameters (on_twilio_message fo d s) = customParameters s"
proof (cases d)
  case NotJson
  then show ?thesis by (simp add: on_twilio_message_def log_def)
next
  case (Json m)
  with assms have "member m ''event'' \<noteq> Inr (JStr ''start'')" by simp
  then show ?thesis
    using twilio_branches_keeps(7) [of fo m s]
    by (cases "twilio_branches fo m s") (simp_all add: on_twilio_message_def log_def Json)
qed

lemma step_keeps_ids:
  assumes "\<not> is_start e"
  shows "streamSid (step fo e s) = streamSid s \<and> callSid (step fo e s) = callSid s
     \<and> customParameters (step fo e s) = customParameters s"
proof (cases e)
  case (SetupSettled out)
  then show ?thesis by (cases out) (simp_all add: log_def)
next
  case AiOpen
  then show ?thesis by (simp add: on_ai_open_def elevenLabsWs_send_def)
next
  case (AiMessage d)
  then show ?thesis by (simp add: on_ai_message_keeps)
next
  case AiClose
  then show ?thesis by (simp add: on_ai_close_def log_def split: option.splits)
next
  case AiError
  then show ?thesis by (simp add: on_ai_error_def log_def split: option.splits)
next
  case (TwilioMessage d)
  then show ?thesis using assms by (simp add: on_twilio_message_keeps_ids)
next
  case TwilioClose
  then show ?thesis by (simp add: on_twilio_close_def close_ai_if_open_def log_def)
next
  case TwilioError
  then show ?thesis by (simp add: on_twilio_error_def log_def)
next
  case (ClientConnect c w)
  then show ?thesis by (simp add: on_client_connect_def log_def)
next
  case (ClientClose w)
  then show ?thesis by (simp add: on_client_close_def log_def split: option.splits)
next
  case (ClientError w)
  then show ?thesis by (simp add: on_client_error_def log_def split: option.splits)
qed

lemma run_keeps_ids:
  "\<forall>e \<in> set es. \<not> is_start e \<Longrightarrow>
     streamSid (run fo es s) = streamSid s \<and> callSid (run fo es s) = callSid s
     \<and> customParameters (run fo es s) = customParameters s"
  by (induction es arbitrary: s) (simp_all add: step_keeps_ids)

lemma start_sets_ids:
  assumes "starts_with msg S C" and "twilio_ready s = OPEN"
  shows "streamSid (step fo (TwilioMessage (Json msg)) s) = S
     \<and> callSid (step fo (TwilioMessage (Json msg)) s) = C"
  using assms
  by (auto simp: starts_with_def on_twilio_message_def twilio_branches_def log_def
        split: sum.splits)






section \<open>What each listener does with each kind of message\<close>

lemma media_handled:
  assumes "member m ''event'' = Inr (JStr ''media'')"
  shows "elevenLabsWs s \<noteq> Some OPEN \<Longrightarrow> on_twilio_message fo (Json m) s = s"
    and "elevenLabsWs s = Some OPEN \<Longrightarrow> member (lookup m ''media'') ''payload'' = Inr (JStr p)
      \<Longrightarrow> on_twilio_message fo (Json m) s
          = s\<lparr>ai_out := ai_out s @
               [JObj [(''user_audio_chunk'', JStr (b64_encode (b64_decode p)))]]\<rparr>"
  using assms
  by (simp_all add: on_twilio_message_def twilio_branches_def elevenLabsWs_send_def)






section \<open>The properties\<close>

subsection \<open>C1\<close>

text \<open>
  C1, as the code has it. A telephony \<open>media\<close> frame with a string payload is forwarded
  to the AI socket exactly when that socket is open at the moment the frame arrives, whether
  or not a \<open>start\<close> frame has been received; when the AI socket is absent or not open a
  \<open>media\<close> frame is dropped and nothing of it is kept. The AI connection is set up when
  the telephony connection is accepted, so it can be open before \<open>start\<close>.
\<close>

theorem media_forwarded_iff_ai_open:
  assumes "member m ''event'' = Inr (JStr ''media'')"
  shows "(elevenLabsWs s \<noteq> Some OPEN \<longrightarrow> on_twilio_message fo (Json m) s = s)
       \<and> (elevenLabsWs s = Some OPEN
            \<and> member (lookup m ''media'') ''payload'' = Inr (JStr p) \<longrightarrow>
          on_twilio_message fo (Json m) s
            = s\<lparr>ai_out := ai_out s @
                 [JObj [(''user_audio_chunk'', JStr (b64_encode (b64_decode p)))]]\<rparr>)
       \<and> (setup_pending s \<longrightarrow>
            elevenLabsWs (run fo [SetupSettled Created, AiOpen] s) = Some OPEN
            \<and> streamSid (run fo [SetupSettled Created, AiOpen] s) = streamSid s)"
  using media_handled(1) [OF assms, where s = s and fo = fo]
    media_handled(2) [OF assms, where s = s and fo = fo and p = p]
  by (simp add: on_ai_open_def elevenLabsWs_send_def)

theorem media_forwarded_iff_ai_open_witness:
  "on_twilio_message refuse_objects (media_in ''QUJD'') accept = accept
   \<and> ai_out (on_twilio_message refuse_objects (media_in ''QUJD'')
        (run refuse_objects [SetupSettled Created, AiOpen] accept))
      = [initialConfig JNull, JObj [(''user_audio_chunk'', JStr ''QUJD'')]]"
  using media_forwarded_iff_ai_open
    [where m = "JObj [(''event'', JStr ''media''), (''media'', JObj [(''payload'', JStr ''QUJD'')])]"
       and s = accept and fo = refuse_objects and p = "''QUJD''"]
    media_forwarded_iff_ai_open
    [where m = "JObj [(''event'', JStr ''media''), (''media'', JObj [(''payload'', JStr ''QUJD'')])]"
       and s = "run refuse_objects [SetupSettled Created, AiOpen] accept"
       and fo = refuse_objects and p = "''QUJD''"]
  by (simp add: media_in_def member_def accept_def on_ai_open_def elevenLabsWs_send_def
        b64_decode_def unbase64_def b64_alphabet_def b64_char_def)

text \<open>
  The run that the specification excludes: the AI socket opens before any \<open>start\<close> frame,
  a \<open>media\<close> frame arrives, and its audio is forwarded while no stream id is known.
\<close>

theorem media_before_start_is_forwarded:
  "streamSid (run refuse_objects
       [SetupSettled Created, AiOpen, TwilioMessage (media_in ''QUJD'')] accept) = JNull
   \<and> ai_out (run refuse_objects
       [SetupSettled Created, AiOpen, TwilioMessage (media_in ''QUJD'')] accept)
      = [initialConfig JNull, JObj [(''user_audio_chunk'', JStr ''QUJD'')]]"
  by (simp add: media_in_def member_def accept_def on_ai_open_def elevenLabsWs_send_def
        on_twilio_message_def twilio_branches_def
        b64_decode_def unbase64_def b64_alphabet_def b64_char_def)

subsection \<open>C2\<close>




subsection \<open>C3\<close>




subsection \<open>C4\<close>




subsection \<open>C5\<close>

text \<open>
  C5, as the code has it. \<open>streamSid\<close> and \<open>callSid\<close> are assigned by \<open>start\<close> frames and
  by nothing else: every \<open>start\<close> frame whose \<open>start\<close> object can be read overwrites both
  with its own values, the first such frame and every later one alike, and no other event
  changes either.
\<close>

theorem ids_follow_latest_start:
  "(starts_with msg S C \<and> twilio_ready s = OPEN \<longrightarrow>
      streamSid (step fo (TwilioMessage (Json msg)) s) = S
      \<and> callSid (step fo (TwilioMessage (Json msg)) s) = C)
   \<and> (\<not> is_start e \<longrightarrow>
        streamSid (step fo e s) = streamSid s \<and> callSid (step fo e s) = callSid s)
   \<and> ((\<forall>e \<in> set es. \<not> is_start e) \<longrightarrow>
        streamSid (run fo es s) = streamSid s \<and> callSid (run fo es s) = callSid s)"
  using start_sets_ids [of msg S C s fo] step_keeps_ids [of e fo s]
    run_keeps_ids [of es fo s]
  by blast

theorem ids_follow_latest_start_witness:
  "streamSid (run refuse_objects
      [TwilioMessage (start_frame ''ST1'' ''CA1''), SetupSettled Created, AiOpen,
       TwilioMessage (media_in ''QUJD'')] accept) = JStr ''ST1''
   \<and> callSid (step refuse_objects (TwilioMessage (start_frame ''ST1'' ''CA1'')) accept)
       = JStr ''CA1''"
  using ids_follow_latest_start
    [where msg = "JObj [(''event'', JStr ''start''),
               (''start'', JObj [(''streamSid'', JStr ''ST1''), (''callSid'', JStr ''CA1'')])]"
       and S = "JStr ''ST1''" and C = "JStr ''CA1''" and s = accept and fo = refuse_objects
       and e = AiOpen
       and es = "[SetupSettled Created, AiOpen, TwilioMessage (media_in ''QUJD'')]"]
    ids_follow_latest_start
    [where msg = JNull and S = JNull and C = JNull and fo = refuse_objects and e = AiOpen
       and s = "step refuse_objects (TwilioMessage (start_frame ''ST1'' ''CA1'')) accept"
       and es = "[SetupSettled Created, AiOpen, TwilioMessage (media_in ''QUJD'')]"]
  by (simp add: start_frame_def media_in_def starts_with_def member_def accept_def)

text \<open>
  The run that the specification excludes: a second \<open>start\<close> frame replaces both
  identifiers.
\<close>

theorem second_start_overwrites_ids:
  "streamSid (step refuse_objects (TwilioMessage (start_frame ''ST1'' ''CA1'')) accept)
     = JStr ''ST1''
   \<and> callSid (step refuse_objects (TwilioMessage (start_frame ''ST1'' ''CA1'')) accept)
     = JStr ''CA1''
   \<and> streamSid (run refuse_objects
        [TwilioMessage (start_frame ''ST1'' ''CA1''),
         TwilioMessage (start_frame ''ST2'' ''CA2'')] accept) = JStr ''ST2''
   \<and> callSid (run refuse_objects
        [TwilioMessage (start_frame ''ST1'' ''CA1''),
         TwilioMessage (start_frame ''ST2'' ''CA2'')] accept) = JStr ''CA2''"
  by (simp add: accept_def start_frame_def log_def on_twilio_message_def twilio_branches_def
        member_def)

subsection \<open>C6\<close>




subsection \<open>C7\<close>

text \<open>
  C7, as the code has it. The chunk forwarded for a \<open>media\<close> frame with a string payload is
  the Base64 encoding of the bytes that the decoder reads from the payload. It equals the
  payload whenever the payload is itself the padded standard encoding of some bytes; a
  payload that is not (no padding, characters outside the alphabet, the URL-safe alphabet)
  is forwarded in its normal form, not as it came.
\<close>

theorem media_chunk_is_reencoded_payload:
  assumes "member m ''event'' = Inr (JStr ''media'')" and "elevenLabsWs s = Some OPEN"
    and "member (lookup m ''media'') ''payload'' = Inr (JStr p)"
  shows "on_twilio_message fo (Json m) s
           = s\<lparr>ai_out := ai_out s @
                [JObj [(''user_audio_chunk'', JStr (b64_encode (b64_decode p)))]]\<rparr>
       \<and> ((\<exists>bs. p = b64_encode bs) \<longrightarrow>
            on_twilio_message fo (Json m) s
              = s\<lparr>ai_out := ai_out s @ [JObj [(''user_audio_chunk'', JStr p)]]\<rparr>)"
proof -
  have 1: "on_twilio_message fo (Json m) s
           = s\<lparr>ai_out := ai_out s @
                [JObj [(''user_audio_chunk'', JStr (b64_encode (b64_decode p)))]]\<rparr>"
    using media_handled(2) [OF assms(1,2,3)] .
  have 2: "b64_encode (b64_decode p) = p" if "\<exists>bs. p = b64_encode bs"
    using that b64_roundtrip by auto
  show ?thesis using 1 2 by simp
qed

theorem media_chunk_is_reencoded_payload_witness:
  "b64_encode [65, 66, 67] = ''QUJD''
   \<and> ai_out (on_twilio_message refuse_objects (media_in ''QUJD'')
      (run refuse_objects [SetupSettled Created, AiOpen] accept))
     = [initialConfig JNull, JObj [(''user_audio_chunk'', JStr ''QUJD'')]]"
proof -
  let ?m = "JObj [(''event'', JStr ''media''), (''media'', JObj [(''payload'', JStr ''QUJD'')])]"
  let ?s = "run refuse_objects [SetupSettled Created, AiOpen] accept"
  have e: "b64_encode [65, 66, 67] = ''QUJD''"
    by (simp add: b64_char_def b64_alphabet_def)
  then have ex: "\<exists>bs. ''QUJD'' = b64_encode bs"
    by (intro exI [of _ "[65, 66, 67]"]) simp
  have m: "member ?m ''event'' = Inr (JStr ''media'')"
    by (simp add: member_def)
  have p: "member (lookup ?m ''media'') ''payload'' = Inr (JStr ''QUJD'')"
    by (simp add: member_def)
  have s: "elevenLabsWs ?s = Some OPEN"
    by (simp add: accept_def on_ai_open_def elevenLabsWs_send_def)
  from media_chunk_is_reencoded_payload [OF m s p, of refuse_objects] ex
  have "on_twilio_message refuse_objects (Json ?m) ?s
      = ?s\<lparr>ai_out := ai_out ?s @ [JObj [(''user_audio_chunk'', JStr ''QUJD'')]]\<rparr>"
    by blast
  then have "ai_out (on_twilio_message refuse_objects (media_in ''QUJD'') ?s)
      = [initialConfig JNull, JObj [(''user_audio_chunk'', JStr ''QUJD'')]]"
    by (simp add: media_in_def accept_def on_ai_open_def elevenLabsWs_send_def)
  with e show ?thesis by (simp only: simp_thms)
qed

text \<open>
  The run that the specification excludes: the payload \<open>QQ\<close>, one byte without its
  padding, is forwarded as \<open>QQ==\<close>.
\<close>

theorem unpadded_payload_is_changed:
  "ai_out (on_twilio_message refuse_objects (media_in ''QQ'')
      (run refuse_objects [SetupSettled Created, AiOpen] accept))
     = [initialConfig JNull, JObj [(''user_audio_chunk'', JStr ''QQ=='')]]
   \<and> ''QQ=='' \<noteq> ''QQ''"
  by (simp add: media_in_def member_def accept_def on_ai_open_def elevenLabsWs_send_def
        on_twilio_message_def twilio_branches_def
        b64_decode_def unbase64_def b64_alphabet_def b64_char_def)

subsection \<open>C8\<close>



subsection \<open>C9\<close>

text \<open>
  C9. A frame that is not JSON, on the telephony socket or on the AI socket, is logged and
  ignored: the listener changes nothing but the log (so neither socket is closed and no
  variable of the session changes), and every later run of events does what it would have
  done without the frame, up to the log.
\<close>

theorem malformed_frame_ignored:
  "on_twilio_message fo NotJson s
      = s\<lparr>console := console s @ [ErrorProcessingTwilio SyntaxError]\<rparr>
   \<and> on_ai_message NotJson s
      = s\<lparr>console := console s @ [ErrorProcessingElevenLabs SyntaxError]\<rparr>
   \<and> forget_console (run fo es (on_twilio_message fo NotJson s)) = forget_console (run fo es s)
   \<and> forget_console (run fo es (on_ai_message NotJson s)) = forget_console (run fo es s)"
proof -
  have t: "on_twilio_message fo NotJson s = log (ErrorProcessingTwilio SyntaxError) s"
    by (simp add: on_twilio_message_def)
  have a: "on_ai_message NotJson s = log (ErrorProcessingElevenLabs SyntaxError) s"
    by (simp add: on_ai_message_def)
  have r: "forget_console (run fo es (log l s)) = forget_console (run fo es s)" for l
    using run_forget [of fo es "log l s"] run_forget [of fo es s] by simp
  show ?thesis
    unfolding t a by (simp add: r) (simp add: log_def)
qed

theorem malformed_frame_ignored_witness:
  "twilio_out (run refuse_objects
       [TwilioMessage NotJson, AiMessage NotJson, AiMessage (audio_chunk ''QUJD'')]
       (run refuse_objects
          [TwilioMessage (start_frame ''ST1'' ''CA1''), SetupSettled Created, AiOpen] accept))
     = [JObj [(''event'', JStr ''media''), (''streamSid'', JStr ''ST1''),
              (''media'', JObj [(''payload'', JStr ''QUJD'')])]]
   \<and> on_twilio_message refuse_objects NotJson accept
     = accept\<lparr>console := [InfoTwilioConnected, ErrorProcessingTwilio SyntaxError]\<rparr>"
  using malformed_frame_ignored [where fo = refuse_objects and s = accept and es = "[]"]
  by (simp add: audio_chunk_def start_frame_def member_def opt_member_def
        accept_def on_twilio_message_def twilio_branches_def log_def on_ai_open_def
        elevenLabsWs_send_def on_ai_message_def ai_switch_def ws_send_def)

subsection \<open>C10\<close>



end
